theory Spec2Isabelle
  imports Main "HOL-Library.AList"
begin

section \<open>Strings and objects of the JavaScript sources\<close>

text \<open>
  JavaScript strings are modelled as \<open>string\<close>. An object used as a dictionary
  (\<open>ImportMapEntry\<close>, a \<open>Record\<close> of strings) is the list of its own
  properties as \<open>Object.entries\<close> lists them, in that order. Every such object is a
  plain object: besides its own properties it inherits the properties of
  \<open>Object.prototype\<close>, whose values are functions (and, under \<open>__proto__\<close>, the
  prototype object itself), not strings. A value read from an object is therefore a
  \<open>jsval\<close>: a string, or the value inherited under a name; \<open>undefined\<close> is
  \<open>None\<close>.
\<close>

type_synonym ImportMapEntry = "(string \<times> string) list"

record ImportMap =
  "imports" :: "ImportMapEntry option"
  scopes :: "(string \<times> ImportMapEntry) list option"
  integrity :: "ImportMapEntry option"

definition object_prototype_keys :: "string list" where
  "object_prototype_keys =
     [''constructor'', ''__defineGetter__'', ''__defineSetter__'', ''hasOwnProperty'',
      ''__lookupGetter__'', ''__lookupSetter__'', ''isPrototypeOf'', ''propertyIsEnumerable'',
      ''toString'', ''valueOf'', ''__proto__'', ''toLocaleString'']"

datatype jsval = Str string | Inherited string

text \<open>The own property \<open>k\<close> of an optional object: the entry of the dictionary.\<close>

definition own :: "ImportMapEntry option \<Rightarrow> string \<Rightarrow> string option" where
  "own obj k = (case obj of None \<Rightarrow> None | Some al \<Rightarrow> map_of al k)"

text \<open>\<open>obj && obj[k]\<close> and \<open>obj?.[k]\<close> for an optional object: the own property,
  else the inherited one, else \<open>undefined\<close>.\<close>

definition lookup :: "ImportMapEntry option \<Rightarrow> string \<Rightarrow> jsval option" where
  "lookup obj k =
     (case obj of
        None \<Rightarrow> None
      | Some al \<Rightarrow>
          (case map_of al k of
             Some v \<Rightarrow> Some (Str v)
           | None \<Rightarrow> if k \<in> set object_prototype_keys then Some (Inherited k) else None))"

text \<open>\<open>k in obj\<close>.\<close>

definition has_property :: "ImportMapEntry \<Rightarrow> string \<Rightarrow> bool" where
  "has_property al k =
     (case map_of al k of Some v \<Rightarrow> True | None \<Rightarrow> k \<in> set object_prototype_keys)"

text \<open>A value used as a condition: \<open>undefined\<close> and the empty string are falsy,
  every other string, every function and every object is truthy.\<close>

definition truthy :: "jsval option \<Rightarrow> bool" where
  "truthy v = (case v of None \<Rightarrow> False | Some (Str s) \<Rightarrow> s \<noteq> [] | Some (Inherited k) \<Rightarrow> True)"

text \<open>\<open>Object.entries(obj || {})\<close>.\<close>

definition entries :: "ImportMapEntry option \<Rightarrow> ImportMapEntry" where
  "entries obj = (case obj of None \<Rightarrow> [] | Some al \<Rightarrow> al)"

definition startsWith :: "string \<Rightarrow> string \<Rightarrow> bool" where
  "startsWith s p = (take (length p) s = p)"

text \<open>\<open>s.split('-')[0]\<close>: the text before the first dash, all of \<open>s\<close> without one.\<close>

definition algorithm_tag :: "string \<Rightarrow> string" where
  "algorithm_tag s = takeWhile (\<lambda>c. c \<noteq> CHR ''-'') s"

subsection \<open>Assignment to a property\<close>

text \<open>
  \<open>obj[k] = v\<close> for a string \<open>v\<close>. The name \<open>__proto__\<close> is the accessor of
  \<open>Object.prototype\<close>, whose setter ignores a string: no property is created. An
  existing own property keeps its place. A new property whose name is an array index
  (a canonical decimal numeral below \<open>2^32 - 1\<close>) is listed by \<open>Object.entries\<close>
  among the array indices, in ascending order and before every other name; any other
  new name is listed last.
\<close>

definition digit :: "char \<Rightarrow> nat option" where
  "digit c =
     map_of [(CHR ''0'', 0), (CHR ''1'', 1), (CHR ''2'', 2), (CHR ''3'', 3), (CHR ''4'', 4),
             (CHR ''5'', 5), (CHR ''6'', 6), (CHR ''7'', 7), (CHR ''8'', 8), (CHR ''9'', 9)] c"

fun decimal :: "nat \<Rightarrow> string \<Rightarrow> nat option" where
  "decimal acc [] = Some acc"
| "decimal acc (c # cs) =
     (case digit c of None \<Rightarrow> None | Some d \<Rightarrow> decimal (10 * acc + d) cs)"

definition array_index :: "string \<Rightarrow> nat option" where
  "array_index k =
     (if k = [] then None
      else if hd k = CHR ''0'' \<and> k \<noteq> ''0'' then None
      else (case decimal 0 k of
              None \<Rightarrow> None
            | Some n \<Rightarrow> if n < 4294967295 then Some n else None))"

fun insert_index :: "nat \<Rightarrow> string \<times> string \<Rightarrow> ImportMapEntry \<Rightarrow> ImportMapEntry" where
  "insert_index n kv [] = [kv]"
| "insert_index n kv (e # rest) =
     (case array_index (fst e) of
        None \<Rightarrow> kv # e # rest
      | Some n' \<Rightarrow> if n' < n then e # insert_index n kv rest else kv # e # rest)"

definition obj_set :: "string \<Rightarrow> string \<Rightarrow> ImportMapEntry \<Rightarrow> ImportMapEntry" where
  "obj_set k v al =
     (if k = ''__proto__'' then al
      else (case map_of al k of
              Some old \<Rightarrow> AList.update k v al
            | None \<Rightarrow>
                (case array_index k of
                   None \<Rightarrow> al @ [(k, v)]
                 | Some n \<Rightarrow> insert_index n (k, v) al)))"

section \<open>The browser: fetch, digest and dynamic import\<close>

text \<open>
  The platform is a parameter. \<open>fetch env url\<close> is the response, with the text that
  \<open>response.text()\<close> gives, and \<open>None\<close> when either promise rejects.
  \<open>digest_base64 env name\<close> is
  \<open>btoa(String.fromCharCode(...new Uint8Array(await crypto.subtle.digest(name, data))))\<close>
  as a function of the text whose encoding is \<open>data\<close>, \<open>None\<close> when the engine
  rejects the algorithm name. \<open>native_text env k\<close> is the string the engine gives for
  the value inherited under \<open>k\<close>, which is what that value is as a property name, in a
  template string, and as the argument of \<open>fetch\<close> and \<open>import\<close>.
  Every function returns the events it caused, in order, with its value;
  \<open>import(url)\<close> is the outcome \<open>Import url\<close>, a thrown \<open>Error(msg)\<close> the
  outcome \<open>Reject msg\<close>, a thrown \<open>TypeError\<close> the outcome \<open>TypeError\<close>.
\<close>

record response =
  ok :: bool
  "text" :: string

record browser_env =
  fetch :: "string \<Rightarrow> response option"
  digest_base64 :: "string \<Rightarrow> (string \<Rightarrow> string) option"
  native_text :: "string \<Rightarrow> string"

datatype event = Fetch string | Digest string string

datatype outcome = Import string | Reject string | TypeError

definition text_of :: "browser_env \<Rightarrow> jsval \<Rightarrow> string" where
  "text_of env v = (case v of Str s \<Rightarrow> s | Inherited k \<Rightarrow> native_text env k)"

section \<open>import-map.ts\<close>

definition calculateIntegrity :: "browser_env \<Rightarrow> string \<Rightarrow> event list \<times> string option" where
  "calculateIntegrity env content =
     ([Digest ''SHA-384'' content],
      case digest_base64 env ''SHA-384'' of
        None \<Rightarrow> None
      | Some h \<Rightarrow> Some (''sha384-'' @ h content))"

text \<open>\<open>specifier in importMap.imports\<close> also holds for an inherited name, and
  \<open>importMap.imports[specifier]\<close> is then the inherited value.\<close>

definition resolveModuleSpecifier :: "string \<Rightarrow> ImportMap \<Rightarrow> jsval" where
  "resolveModuleSpecifier specifier importMap =
     (case imports importMap of
        None \<Rightarrow> Str specifier
      | Some al \<Rightarrow>
          if has_property al specifier then the (lookup (Some al) specifier)
          else Str specifier)"

definition hasIntegrityCheck :: "string \<Rightarrow> ImportMap \<Rightarrow> bool" where
  "hasIntegrityCheck url importMap = truthy (lookup (integrity importMap) url)"

definition getIntegrityHash :: "string \<Rightarrow> ImportMap \<Rightarrow> jsval option" where
  "getIntegrityHash url importMap = lookup (integrity importMap) url"

text \<open>The \<open>try\<close> block of \<open>verifyIntegrity\<close>: a rejected fetch or digest is caught
  and gives \<open>false\<close>. The response's status is not looked at. \<open>===\<close> between the
  computed string and an inherited value is false.\<close>

definition verifyIntegrity :: "browser_env \<Rightarrow> string \<Rightarrow> jsval \<Rightarrow> event list \<times> bool" where
  "verifyIntegrity env url expectedHash =
     (case fetch env url of
        None \<Rightarrow> ([Fetch url], False)
      | Some r \<Rightarrow>
          (case calculateIntegrity env (text r) of
             (evs, None) \<Rightarrow> (Fetch url # evs, False)
           | (evs, Some actualHash) \<Rightarrow> (Fetch url # evs, Str actualHash = expectedHash)))"

text \<open>The \<open>for\<close> loop of \<open>importWithIntegrity\<close> over \<open>Object.entries(imports)\<close>:
  the first bare specifier whose target \<open>===\<close> the resolved value and that has an
  integrity check, if any.\<close>

fun alias_scan :: "ImportMap \<Rightarrow> jsval \<Rightarrow> ImportMapEntry \<Rightarrow> string option" where
  "alias_scan importMap resolvedUrl [] = None"
| "alias_scan importMap resolvedUrl ((bareSpecifier, targetUrl) # rest) =
     (if Str targetUrl = resolvedUrl \<and> hasIntegrityCheck bareSpecifier importMap
      then Some bareSpecifier
      else alias_scan importMap resolvedUrl rest)"

definition failed_msg :: "string \<Rightarrow> string" where
  "failed_msg url = ''Integrity check failed for module: '' @ url"

definition failed_via_msg :: "string \<Rightarrow> string \<Rightarrow> string" where
  "failed_via_msg url bareSpecifier = failed_msg url @ '' (via '' @ bareSpecifier @ '')''"

definition importWithIntegrity :: "browser_env \<Rightarrow> string \<Rightarrow> ImportMap \<Rightarrow> event list \<times> outcome" where
  "importWithIntegrity env specifier importMap =
     (let resolvedUrl = resolveModuleSpecifier specifier importMap;
          url = text_of env resolvedUrl;
          integ = getIntegrityHash url importMap
      in if truthy integ
         then (case verifyIntegrity env url (the integ) of
                 (evs, isValid) \<Rightarrow>
                   if \<not> isValid then (evs, Reject (failed_msg url))
                   else (evs, Import url))
         else (case alias_scan importMap resolvedUrl (entries (imports importMap)) of
                 Some bareSpecifier \<Rightarrow> ([], Reject (failed_via_msg url bareSpecifier))
               | None \<Rightarrow> ([], Import url)))"

section \<open>module-integrity-client.js\<close>

text \<open>
  The file reads the import map from the document with \<open>getImportMap()\<close>, which
  gives \<open>null\<close> when the page has none or it does not parse: the functions below
  take that value, \<open>None\<close> for \<open>null\<close>, as a parameter (the page does not change
  during one import, and \<open>window\<close> and \<open>document\<close> exist).
\<close>

text \<open>\<open>importMap.imports[specifier] || specifier\<close>.\<close>

definition resolveSpecifier :: "ImportMap option \<Rightarrow> string \<Rightarrow> jsval" where
  "resolveSpecifier importMap specifier =
     (case importMap of
        None \<Rightarrow> Str specifier
      | Some m \<Rightarrow>
          (case imports m of
             None \<Rightarrow> Str specifier
           | Some al \<Rightarrow>
               if truthy (lookup (Some al) specifier) then the (lookup (Some al) specifier)
               else Str specifier))"

text \<open>The loop of \<open>hasIntegrityConstraint\<close>: does an entry of \<open>imports\<close> target the
  URL under a specifier with a truthy \<open>integrity\<close> property?\<close>

fun indirect_constraint :: "ImportMap \<Rightarrow> jsval \<Rightarrow> ImportMapEntry \<Rightarrow> bool" where
  "indirect_constraint m u [] = False"
| "indirect_constraint m u ((specifier, targetUrl) # rest) =
     (if Str targetUrl = u \<and> truthy (lookup (integrity m) specifier) then True
      else indirect_constraint m u rest)"

definition hasIntegrityConstraint :: "browser_env \<Rightarrow> ImportMap option \<Rightarrow> jsval \<Rightarrow> bool" where
  "hasIntegrityConstraint env importMap u =
     (case importMap of
        None \<Rightarrow> False
      | Some m \<Rightarrow>
          if truthy (lookup (integrity m) (text_of env u)) then True
          else (case imports m of
                  None \<Rightarrow> False
                | Some al \<Rightarrow> indirect_constraint m u al))"

text \<open>The loop of \<open>verifyIntegrity\<close>: the hash of the first such entry (\<open>break\<close>).\<close>

fun indirect_integrity :: "ImportMap \<Rightarrow> jsval \<Rightarrow> ImportMapEntry \<Rightarrow> jsval option" where
  "indirect_integrity m u [] = None"
| "indirect_integrity m u ((specifier, targetUrl) # rest) =
     (if Str targetUrl = u \<and> truthy (lookup (integrity m) specifier)
      then lookup (integrity m) specifier
      else indirect_integrity m u rest)"

text \<open>The hash \<open>verifyIntegrity\<close> checks against: the direct one, else an indirect one.\<close>

definition selected_integrity :: "browser_env \<Rightarrow> ImportMap \<Rightarrow> jsval \<Rightarrow> jsval option" where
  "selected_integrity env m u =
     (let direct = lookup (integrity m) (text_of env u)
      in if \<not> truthy direct \<and> imports m \<noteq> None
         then (case indirect_integrity m u (entries (imports m)) of
                 Some d \<Rightarrow> Some d
               | None \<Rightarrow> direct)
         else direct)"

definition mic_calculateIntegrity :: "browser_env \<Rightarrow> string \<Rightarrow> event list \<times> string option" where
  "mic_calculateIntegrity env content =
     ([Digest ''SHA-384'' content],
      case digest_base64 env ''SHA-384'' of
        None \<Rightarrow> None
      | Some h \<Rightarrow> Some (''sha384-'' @ h content))"

text \<open>\<open>verifyIntegrity\<close> returns a boolean, or throws the \<open>TypeError\<close> of
  \<open>integrity.startsWith\<close> when the selected value is not a string: that call stands
  before the \<open>try\<close> block.\<close>

datatype verdict = Verdict bool | ThrewTypeError

definition mic_verifyIntegrity :: "browser_env \<Rightarrow> ImportMap option \<Rightarrow> jsval \<Rightarrow> event list \<times> verdict" where
  "mic_verifyIntegrity env importMap u =
     (case importMap of
        None \<Rightarrow> ([], Verdict True)
      | Some m \<Rightarrow>
          let integ = selected_integrity env m u
          in if \<not> truthy integ then ([], Verdict True)
             else (case the integ of
                     Inherited k \<Rightarrow> ([], ThrewTypeError)
                   | Str d \<Rightarrow>
                       if \<not> startsWith d ''sha384-'' then ([], Verdict False)
                       else (case fetch env (text_of env u) of
                               None \<Rightarrow> ([Fetch (text_of env u)], Verdict False)
                             | Some r \<Rightarrow>
                                 if \<not> ok r then ([Fetch (text_of env u)], Verdict False)
                                 else (case mic_calculateIntegrity env (text r) of
                                         (evs, None) \<Rightarrow>
                                           (Fetch (text_of env u) # evs, Verdict False)
                                       | (evs, Some actualIntegrity) \<Rightarrow>
                                           (Fetch (text_of env u) # evs,
                                            Verdict (actualIntegrity = d))))))"

definition mic_importWithIntegrity :: "browser_env \<Rightarrow> ImportMap option \<Rightarrow> string \<Rightarrow> event list \<times> outcome" where
  "mic_importWithIntegrity env importMap specifier =
     (let u = resolveSpecifier importMap specifier
      in if hasIntegrityConstraint env importMap u
         then (case mic_verifyIntegrity env importMap u of
                 (evs, ThrewTypeError) \<Rightarrow> (evs, TypeError)
               | (evs, Verdict isValid) \<Rightarrow>
                   if \<not> isValid then (evs, Reject (failed_msg (text_of env u)))
                   else (evs, Import (text_of env u)))
         else ([], Import (text_of env u)))"

section \<open>Resolution with scopes, as the specification words it\<close>

text \<open>
  No function of the repository reads \<open>scopes\<close> when it resolves a specifier. For the
  comparison with \<open>resolveModuleSpecifier\<close>, \<open>spec_resolve\<close> follows the
  specification's sentence instead of the source: the scope whose prefix is the longest
  prefix of the referrer's URL overrides \<open>imports\<close>; without such a scope, or when it
  has no entry for the specifier, the top-level \<open>imports\<close> decide; a specifier found
  nowhere is its own URL.
\<close>

fun longest_scope :: "string \<Rightarrow> (string \<times> ImportMapEntry) list \<Rightarrow> (string \<times> ImportMapEntry) option" where
  "longest_scope referrer [] = None"
| "longest_scope referrer ((pre, al) # rest) =
     (case longest_scope referrer rest of
        None \<Rightarrow> if startsWith referrer pre then Some (pre, al) else None
      | Some (pre', al') \<Rightarrow>
          if startsWith referrer pre \<and> length pre' < length pre then Some (pre, al)
          else Some (pre', al'))"

definition spec_resolve :: "string \<Rightarrow> string \<Rightarrow> ImportMap \<Rightarrow> string" where
  "spec_resolve referrer specifier importMap =
     (let global = (case own (imports importMap) specifier of
                      None \<Rightarrow> specifier | Some u \<Rightarrow> u)
      in case scopes importMap of
           None \<Rightarrow> global
         | Some sc \<Rightarrow>
             (case longest_scope referrer sc of
                None \<Rightarrow> global
              | Some (pre, al) \<Rightarrow>
                  (case map_of al specifier of None \<Rightarrow> global | Some u \<Rightarrow> u)))"

section \<open>Node: file system, paths and digests\<close>

text \<open>
  The Node platform is a parameter as well. \<open>readFileSync env p\<close> is the file's
  bytes, \<open>readFileSync_utf8 env p\<close> the text that \<open>fs.readFileSync(p, 'utf-8')\<close>
  gives, \<open>readJSON env p\<close> the import map that
  \<open>JSON.parse(fs.readFileSync(p, 'utf-8'))\<close> gives; each is \<open>None\<close> when the call
  throws. \<open>url_pathname env u\<close> is \<open>new URL(u).pathname\<close>, \<open>None\<close> when the
  constructor throws. \<open>createHash env a\<close> is
  \<open>crypto.createHash(a).update(content).digest('base64')\<close> as a function of the
  content, \<open>None\<close> when \<open>createHash\<close> throws on the algorithm name.
  \<open>path_join\<close>, \<open>path_basename\<close> and \<open>path_extname\<close> are the functions of
  Node's \<open>path\<close> module.
\<close>

record node_env =
  existsSync :: "string \<Rightarrow> bool"
  readFileSync :: "string \<Rightarrow> string option"
  readFileSync_utf8 :: "string \<Rightarrow> string option"
  readJSON :: "string \<Rightarrow> ImportMap option"
  path_join :: "string \<Rightarrow> string \<Rightarrow> string"
  path_basename :: "string \<Rightarrow> string \<Rightarrow> string"
  path_extname :: "string \<Rightarrow> string"
  url_pathname :: "string \<Rightarrow> string option"
  createHash :: "string \<Rightarrow> (string \<Rightarrow> string) option"

datatype thrown =
    ImportMapNotFound string
  | NoIntegrityHashes
  | ReadFailed string
  | InvalidURL string
  | DigestUnsupported string
  | FetchRejected string
  | ModuleIntegrityError string

record failure =
  failure_url :: string
  expected :: string
  actual :: "string option"
  error :: "string option"

record results =
  total :: nat
  passed :: nat
  failed :: nat
  missing :: nat
  failures :: "failure list"

record nextjs_results = results +
  success :: bool

fun str_includes :: "string \<Rightarrow> string \<Rightarrow> bool" where
  "str_includes [] p = (p = [])"
| "str_includes (c # cs) p = (startsWith (c # cs) p \<or> str_includes cs p)"

text \<open>The file path of a URL, the same lines in both validators: a leading slash is
  dropped, an absolute URL gives its path without the leading slash.\<close>

definition file_path :: "node_env \<Rightarrow> string \<Rightarrow> string option" where
  "file_path env u =
     (if startsWith u ''/'' then Some (drop 1 u)
      else if str_includes u ''://'' then map_option (drop 1) (url_pathname env u)
      else Some u)"

definition not_found :: "string \<Rightarrow> string \<Rightarrow> failure" where
  "not_found u expectedHash =
     \<lparr>failure_url = u, expected = expectedHash, actual = None, error = Some ''File not found''\<rparr>"

definition mismatch :: "string \<Rightarrow> string \<Rightarrow> string \<Rightarrow> failure" where
  "mismatch u expectedHash actualHash =
     \<lparr>failure_url = u, expected = expectedHash, actual = Some actualHash, error = None\<rparr>"

definition unsupported :: "string \<Rightarrow> string \<Rightarrow> failure" where
  "unsupported u expectedHash =
     \<lparr>failure_url = u, expected = expectedHash, actual = None,
      error = Some ''Unsupported hash algorithm. Only SHA-384 is supported.''\<rparr>"

section \<open>build-validator.js: validateBuildOutput\<close>

text \<open>One turn of the \<open>for\<close> loop over \<open>Object.entries(integrity)\<close>.\<close>

definition validateBuildOutput_entry ::
  "node_env \<Rightarrow> string \<Rightarrow> results \<Rightarrow> string \<times> string \<Rightarrow> thrown + results" where
  "validateBuildOutput_entry env dir r0 e =
     (case e of (u, expectedHash) \<Rightarrow>
        let r = r0\<lparr>total := total r0 + 1\<rparr>
        in case file_path env u of
             None \<Rightarrow> Inl (InvalidURL u)
           | Some filePath \<Rightarrow>
               let fullPath = path_join env dir filePath
               in if \<not> existsSync env fullPath
                  then Inr (r\<lparr>missing := missing r + 1,
                              failures := failures r @ [not_found u expectedHash]\<rparr>)
                  else (case readFileSync_utf8 env fullPath of
                          None \<Rightarrow> Inl (ReadFailed fullPath)
                        | Some content \<Rightarrow>
                            let algorithm = algorithm_tag expectedHash
                            in case createHash env algorithm of
                                 None \<Rightarrow> Inl (DigestUnsupported algorithm)
                               | Some h \<Rightarrow>
                                   let actualHash = algorithm @ ''-'' @ h content
                                   in if actualHash = expectedHash
                                      then Inr (r\<lparr>passed := passed r + 1\<rparr>)
                                      else Inr (r\<lparr>failed := failed r + 1,
                                                  failures := failures r @
                                                    [mismatch u expectedHash actualHash]\<rparr>)))"

fun validateBuildOutput_entries ::
  "node_env \<Rightarrow> string \<Rightarrow> results \<Rightarrow> ImportMapEntry \<Rightarrow> thrown + results" where
  "validateBuildOutput_entries env dir r [] = Inr r"
| "validateBuildOutput_entries env dir r (e # es) =
     (case validateBuildOutput_entry env dir r e of
        Inl t \<Rightarrow> Inl t
      | Inr r' \<Rightarrow> validateBuildOutput_entries env dir r' es)"

text \<open>The whole script: \<open>process.exit(1)\<close> is \<open>Exit1\<close>, with the results it printed
  before when it got that far; an exception leaves as \<open>Threw\<close>.\<close>

datatype build_outcome = Threw thrown | Exit1 "results option" | Done results

definition validateBuildOutput :: "node_env \<Rightarrow> string \<Rightarrow> build_outcome" where
  "validateBuildOutput env dir =
     (let importMapFile = path_join env dir ''importmap.json''
      in if \<not> existsSync env importMapFile then Exit1 None
         else (case readJSON env importMapFile of
                 None \<Rightarrow> Threw (ReadFailed importMapFile)
               | Some importMap \<Rightarrow>
                   (case integrity importMap of
                      None \<Rightarrow> Exit1 None
                    | Some integ \<Rightarrow>
                        if length integ = 0 then Exit1 None
                        else (case validateBuildOutput_entries env dir
                                     \<lparr>total = 0, passed = 0, failed = 0, missing = 0,
                                      failures = []\<rparr> integ of
                                Inl t \<Rightarrow> Threw t
                              | Inr r \<Rightarrow>
                                  if length (failures r) > 0 then Exit1 (Some r)
                                  else Done r))))"

section \<open>module-integrity-validator.js: validateNextJSBuildIntegrity\<close>

record validator_config =
  distDir :: "string option"
  importMapPath :: "string option"

definition validateNextJS_entry ::
  "node_env \<Rightarrow> string \<Rightarrow> nextjs_results \<Rightarrow> string \<times> string \<Rightarrow> thrown + nextjs_results" where
  "validateNextJS_entry env dir r0 e =
     (case e of (u, expectedHash) \<Rightarrow>
        let r = r0\<lparr>total := total r0 + 1\<rparr>
        in if \<not> startsWith expectedHash (''sha384'' @ ''-'')
           then Inr (r\<lparr>failed := failed r + 1,
                       failures := failures r @ [unsupported u expectedHash]\<rparr>)
           else (case file_path env u of
                   None \<Rightarrow> Inl (InvalidURL u)
                 | Some filePath \<Rightarrow>
                     let fullPath = path_join env dir filePath
                     in if \<not> existsSync env fullPath
                        then Inr (r\<lparr>missing := missing r + 1,
                                    failures := failures r @ [not_found u expectedHash]\<rparr>)
                        else (case readFileSync env fullPath of
                                None \<Rightarrow> Inl (ReadFailed fullPath)
                              | Some content \<Rightarrow>
                                  (case createHash env ''sha384'' of
                                     None \<Rightarrow> Inl (DigestUnsupported ''sha384'')
                                   | Some h \<Rightarrow>
                                       let actualHash = ''sha384'' @ ''-'' @ h content
                                       in if actualHash = expectedHash
                                          then Inr (r\<lparr>passed := passed r + 1\<rparr>)
                                          else Inr (r\<lparr>failed := failed r + 1,
                                                      failures := failures r @
                                                        [mismatch u expectedHash actualHash]\<rparr>)))))"

fun validateNextJS_entries ::
  "node_env \<Rightarrow> string \<Rightarrow> nextjs_results \<Rightarrow> ImportMapEntry \<Rightarrow> thrown + nextjs_results" where
  "validateNextJS_entries env dir r [] = Inr r"
| "validateNextJS_entries env dir r (e # es) =
     (case validateNextJS_entry env dir r e of
        Inl t \<Rightarrow> Inl t
      | Inr r' \<Rightarrow> validateNextJS_entries env dir r' es)"

text \<open>\<open>config.distDir || ".next"\<close> and \<open>config.importMapPath || "importmap.json"\<close>.\<close>

definition config_distDir :: "validator_config \<Rightarrow> string" where
  "config_distDir config =
     (case distDir config of None \<Rightarrow> ''.next'' | Some d \<Rightarrow> if d \<noteq> [] then d else ''.next'')"

definition config_importMapPath :: "validator_config \<Rightarrow> string" where
  "config_importMapPath config =
     (case importMapPath config of
        None \<Rightarrow> ''importmap.json''
      | Some p \<Rightarrow> if p \<noteq> [] then p else ''importmap.json'')"

definition validateNextJSBuildIntegrity :: "node_env \<Rightarrow> validator_config \<Rightarrow> thrown + nextjs_results" where
  "validateNextJSBuildIntegrity env config =
     (let dir = config_distDir config;
          mapPath = config_importMapPath config;
          fullImportMapPath = path_join env dir mapPath
      in if \<not> existsSync env fullImportMapPath then Inl (ImportMapNotFound fullImportMapPath)
         else (case readJSON env fullImportMapPath of
                 None \<Rightarrow> Inl (ReadFailed fullImportMapPath)
               | Some importMap \<Rightarrow>
                   (case integrity importMap of
                      None \<Rightarrow> Inl NoIntegrityHashes
                    | Some integ \<Rightarrow>
                        if length integ = 0 then Inl NoIntegrityHashes
                        else (case validateNextJS_entries env dir
                                     \<lparr>total = 0, passed = 0, failed = 0, missing = 0,
                                      failures = [], success = False\<rparr> integ of
                                Inl t \<Rightarrow> Inl t
                              | Inr r \<Rightarrow>
                                  if length (failures r) > 0 then Inr (r\<lparr>success := False\<rparr>)
                                  else Inr (r\<lparr>success := True\<rparr>)))))"

text \<open>What both validators do with an entry whose file is not there.\<close>

definition count_missing :: "string \<Rightarrow> string \<Rightarrow> 'a results_scheme \<Rightarrow> 'a results_scheme" where
  "count_missing u expectedHash r =
     r\<lparr>total := total r + 1, missing := missing r + 1,
       failures := failures r @ [not_found u expectedHash]\<rparr>"

text \<open>What \<open>validateNextJSBuildIntegrity\<close> does with an entry whose digest string
  does not start with \<open>sha384-\<close>.\<close>

definition count_unsupported :: "string \<Rightarrow> string \<Rightarrow> 'a results_scheme \<Rightarrow> 'a results_scheme" where
  "count_unsupported u expectedHash r =
     r\<lparr>total := total r + 1, failed := failed r + 1,
       failures := failures r @ [unsupported u expectedHash]\<rparr>"

section \<open>module-integrity-typescript.ts: the generator\<close>

text \<open>\<open>calculateIntegrity\<close> rethrows whatever \<open>createHash\<close> throws as a
  \<open>ModuleIntegrityError\<close> (its message is kept up to the platform's own text);
  \<open>invariant\<close> throws one with the given message.\<close>

definition ts_calculateIntegrity :: "node_env \<Rightarrow> string \<Rightarrow> thrown + string" where
  "ts_calculateIntegrity env content =
     (case createHash env ''sha384'' of
        None \<Rightarrow> Inl (ModuleIntegrityError ''[ModuleIntegrity] Failed to calculate integrity'')
      | Some h \<Rightarrow> Inr (''sha384-'' @ h content))"

text \<open>\<open>s.replace(/\\/g, "/")\<close>.\<close>

definition slashes :: "string \<Rightarrow> string" where
  "slashes s = map (\<lambda>c. if c = CHR 0x5C then CHR ''/'' else c) s"

definition module_specifier :: "node_env \<Rightarrow> string \<Rightarrow> string" where
  "module_specifier env modulePath = path_basename env modulePath (path_extname env modulePath)"

definition module_url :: "node_env \<Rightarrow> string \<Rightarrow> string \<Rightarrow> string" where
  "module_url env baseUrl modulePath =
     (let normalizedPath = (if startsWith modulePath ''/'' then modulePath else ''/'' @ modulePath)
      in slashes (path_join env baseUrl normalizedPath))"

text \<open>The \<open>for\<close> loop of \<open>generateImportMapWithIntegrity\<close>, on the two objects
  \<open>imports\<close> and \<open>integrity\<close> it fills.\<close>

fun generate_entries ::
  "node_env \<Rightarrow> string \<Rightarrow> ImportMapEntry \<times> ImportMapEntry \<Rightarrow> (string \<times> string) list
     \<Rightarrow> thrown + ImportMapEntry \<times> ImportMapEntry" where
  "generate_entries env baseUrl acc [] = Inr acc"
| "generate_entries env baseUrl acc ((modulePath, content) # rest) =
     (case ts_calculateIntegrity env content of
        Inl t \<Rightarrow> Inl t
      | Inr digest \<Rightarrow>
          generate_entries env baseUrl
            (obj_set (module_specifier env modulePath) (module_url env baseUrl modulePath) (fst acc),
             obj_set (module_url env baseUrl modulePath) digest (snd acc))
            rest)"

definition generateImportMapWithIntegrity ::
  "node_env \<Rightarrow> (string \<times> string) list \<Rightarrow> string \<Rightarrow> thrown + ImportMap" where
  "generateImportMapWithIntegrity env modules baseUrl =
     (if \<not> length modules > 0
      then Inl (ModuleIntegrityError ''[ModuleIntegrity] No modules provided for integrity calculation'')
      else (case generate_entries env baseUrl ([], []) modules of
              Inl t \<Rightarrow> Inl t
            | Inr acc \<Rightarrow> Inr \<lparr>imports = Some (fst acc), scopes = None, integrity = Some (snd acc)\<rparr>))"

text \<open>What stands under a name after the assignments \<open>writes\<close>, made in that
  order: the value of the last assignment to the name, and nothing under
  \<open>__proto__\<close>.\<close>

definition last_write :: "(string \<times> string) list \<Rightarrow> string \<Rightarrow> string option" where
  "last_write writes k = (if k = ''__proto__'' then None else map_of (rev writes) k)"

section \<open>The browser-side generator (TypeScript implementation for ES Module Integrity)\<close>

text \<open>Here \<open>modules\<close> maps specifiers to URLs, and each URL is fetched and hashed.
  Nothing is caught: a rejected fetch or digest rejects the whole call.\<close>

definition fetchAndCalculateIntegrity :: "browser_env \<Rightarrow> string \<Rightarrow> thrown + string" where
  "fetchAndCalculateIntegrity env u =
     (case fetch env u of
        None \<Rightarrow> Inl (FetchRejected u)
      | Some r \<Rightarrow>
          (case digest_base64 env ''SHA-384'' of
             None \<Rightarrow> Inl (DigestUnsupported ''SHA-384'')
           | Some h \<Rightarrow> Inr (''sha384-'' @ h (text r))))"

fun browser_generate_entries ::
  "browser_env \<Rightarrow> ImportMapEntry \<times> ImportMapEntry \<Rightarrow> (string \<times> string) list
     \<Rightarrow> thrown + ImportMapEntry \<times> ImportMapEntry" where
  "browser_generate_entries env acc [] = Inr acc"
| "browser_generate_entries env acc ((specifier, u) # rest) =
     (case fetchAndCalculateIntegrity env u of
        Inl t \<Rightarrow> Inl t
      | Inr digest \<Rightarrow>
          browser_generate_entries env
            (obj_set specifier u (fst acc), obj_set u digest (snd acc)) rest)"

definition browser_generateImportMapWithIntegrity ::
  "browser_env \<Rightarrow> (string \<times> string) list \<Rightarrow> thrown + ImportMap" where
  "browser_generateImportMapWithIntegrity env modules =
     (case browser_generate_entries env ([], []) modules of
        Inl t \<Rightarrow> Inl t
      | Inr acc \<Rightarrow> Inr \<lparr>imports = Some (fst acc), scopes = None, integrity = Some (snd acc)\<rparr>)"

section \<open>Concrete pages, sites and import maps for the examples\<close>

text \<open>
  The examples run on a stand-in platform: \<open>stub_browser site\<close> serves the texts of
  \<open>site\<close> with status ok, rejects every other fetch, digests with \<open>stub_digest\<close>
  under the name \<open>SHA-384\<close> and rejects every other algorithm name; its text of an
  inherited value is the one V8 prints.
\<close>

definition v8_native_text :: "string \<Rightarrow> string" where
  "v8_native_text k =
     (if k = ''__proto__'' then ''[object Object]''
      else if k = ''constructor'' then ''function Object() { [native code] }''
      else ''function '' @ k @ ''() { [native code] }'')"

definition stub_digest :: "string \<Rightarrow> string" where
  "stub_digest content = ''b64['' @ content @ '']''"

definition stub_browser :: "(string \<times> string) list \<Rightarrow> browser_env" where
  "stub_browser site =
     \<lparr>fetch = (\<lambda>u. map_option (\<lambda>t. \<lparr>ok = True, text = t\<rparr>) (map_of site u)),
      digest_base64 = (\<lambda>name. if name = ''SHA-384'' then Some stub_digest else None),
      native_text = v8_native_text\<rparr>"

text \<open>The import map of module-integrity.test.js, its URLs shortened.\<close>

definition test_map :: ImportMap where
  "test_map =
     \<lparr>imports = Some [(''log?name=A'', ''log?name=B''), (''log?name=C'', ''log?name=D''),
                       (''log?name=G'', ''log?name=F''), (''bare'', ''log?name=E''),
                       (''bare2'', ''log?name=F'')],
      scopes = None,
      integrity = Some [(''log?name=A'', ''sha384-Li9vy3DqF8tnTXuiaAJuML3ky+er10rcgNR''),
                        (''bare'', ''sha384-Li9vy3DqF8tnTXuiaAJuML3ky+tr10rcgNR''),
                        (''bare2'', ''sha384-Li9vy3DqF8tnTXuiaAJuML3ky+yr10rcgNR'')]\<rparr>"

text \<open>The same aliases, with the hash under \<open>bare2\<close> the digest of what the site
  serves at the aliased URL.\<close>

definition alias_map :: ImportMap where
  "alias_map =
     \<lparr>imports = Some [(''log?name=G'', ''log?name=F''), (''bare2'', ''log?name=F'')],
      scopes = None,
      integrity = Some [(''bare2'', ''sha384-b64[module F]'')]\<rparr>"

text \<open>The import map of the README, with a given digest string.\<close>

definition square_map :: "string \<Rightarrow> ImportMap" where
  "square_map d =
     \<lparr>imports = Some [(''square'', ''./module/shapes/square.js'')],
      scopes = None,
      integrity = Some [(''./module/shapes/square.js'', d)]\<rparr>"

text \<open>An import map with a scope that overrides a top-level entry.\<close>

definition scoped_map :: ImportMap where
  "scoped_map =
     \<lparr>imports = Some [(''lib'', ''/lib-v2.js'')],
      scopes = Some [(''/legacy/'', [(''lib'', ''/lib-v1.js'')])],
      integrity = None\<rparr>"

text \<open>
  A stand-in Node platform over a list of files and a list of stored import maps.
  Its digest of a content under the algorithm \<open>a\<close> is \<open>toy_hash a\<close>, for the two
  names \<open>sha384\<close> and \<open>sha256\<close>. Its path functions give what Node's POSIX ones
  give on the paths of the examples (plain paths: no \<open>.\<close> or \<open>..\<close> segment
  inside, no trailing slash; the directory \<open>.\<close> only before a relative path).
\<close>

definition toy_hash :: "string \<Rightarrow> string \<Rightarrow> string" where
  "toy_hash a content = a @ ''['' @ content @ '']''"

fun collapse :: "string \<Rightarrow> string" where
  "collapse (c # d # cs) =
     (if c = CHR ''/'' \<and> d = CHR ''/'' then collapse (d # cs) else c # collapse (d # cs))"
| "collapse cs = cs"

definition posix_join :: "string \<Rightarrow> string \<Rightarrow> string" where
  "posix_join a b = collapse (if a = ''.'' then b else a @ ''/'' @ b)"

definition last_segment :: "string \<Rightarrow> string" where
  "last_segment p = rev (takeWhile (\<lambda>c. c \<noteq> CHR ''/'') (rev p))"

definition posix_extname :: "string \<Rightarrow> string" where
  "posix_extname p =
     (let b = last_segment p
      in if CHR ''.'' \<in> set (drop 1 b)
         then CHR ''.'' # rev (takeWhile (\<lambda>c. c \<noteq> CHR ''.'') (rev b))
         else [])"

definition posix_basename :: "string \<Rightarrow> string \<Rightarrow> string" where
  "posix_basename p ext =
     (let b = last_segment p
      in if ext \<noteq> [] \<and> length ext < length b \<and> drop (length b - length ext) b = ext
         then take (length b - length ext) b
         else b)"

definition disk_node :: "(string \<times> string) list \<Rightarrow> (string \<times> ImportMap) list \<Rightarrow> node_env" where
  "disk_node files maps =
     \<lparr>existsSync = (\<lambda>p. p \<in> set (map fst files) \<or> p \<in> set (map fst maps)),
      readFileSync = map_of files,
      readFileSync_utf8 = map_of files,
      readJSON = map_of maps,
      path_join = posix_join,
      path_basename = posix_basename,
      path_extname = posix_extname,
      url_pathname = (\<lambda>u. None),
      createHash = (\<lambda>a. if a = ''sha384'' \<or> a = ''sha256'' then Some (toy_hash a) else None)\<rparr>"

text \<open>A build directory \<open>dist\<close> with one module and an import map of three entries:
  the module's right digest, a module that is not on disk, and the module again under a
  digest of another algorithm.\<close>

definition dist_map :: ImportMap where
  "dist_map =
     \<lparr>imports = Some [(''a'', ''/a.js'')],
      scopes = None,
      integrity = Some [(''/a.js'', ''sha384-sha384[export const a = 1;]''),
                        (''/gone.js'', ''sha384-sha384[export const g = 1;]''),
                        (''a.js'', ''sha256-sha256[export const a = 1;]'')]\<rparr>"

definition dist_node :: node_env where
  "dist_node = disk_node [(''dist/a.js'', ''export const a = 1;'')] [(''dist/importmap.json'', dist_map)]"

definition dist_config :: validator_config where
  "dist_config = \<lparr>distDir = Some ''dist'', importMapPath = None\<rparr>"

text \<open>Two more build directories: one whose only entry names a missing file under a
  \<open>sha256\<close> digest, one whose only entry is a module on disk with its \<open>sha256\<close>
  digest.\<close>

definition gone_map :: ImportMap where
  "gone_map =
     \<lparr>imports = None, scopes = None,
      integrity = Some [(''/gone.js'', ''sha256-sha256[export const g = 1;]'')]\<rparr>"

definition gone_node :: node_env where
  "gone_node = disk_node [] [(''dist/importmap.json'', gone_map)]"

definition sha256_map :: ImportMap where
  "sha256_map =
     \<lparr>imports = None, scopes = None,
      integrity = Some [(''/a.js'', ''sha256-sha256[export const a = 1;]'')]\<rparr>"

definition sha256_node :: node_env where
  "sha256_node = disk_node [(''dist/a.js'', ''export const a = 1;'')] [(''dist/importmap.json'', sha256_map)]"

definition no_results :: results where
  "no_results = \<lparr>total = 0, passed = 0, failed = 0, missing = 0, failures = []\<rparr>"

definition no_nextjs_results :: nextjs_results where
  "no_nextjs_results =
     \<lparr>total = 0, passed = 0, failed = 0, missing = 0, failures = [], success = False\<rparr>"

text \<open>An import map whose only specifier is a property name of \<open>Object.prototype\<close>,
  with no integrity entry at all.\<close>

definition inherited_map :: ImportMap where
  "inherited_map =
     \<lparr>imports = Some [(''toString'', ''/x.js'')], scopes = None, integrity = Some []\<rparr>"

text \<open>A page whose direct digest has the tag \<open>sha256\<close>.\<close>

definition sha256_page :: ImportMap where
  "sha256_page = square_map ''sha256-b64[export {}]''"

text \<open>A project whose directory \<open>public/js\<close> holds one module; the import map
  generated from that directory is stored both in the project root and in the directory.\<close>

definition pub_modules :: "(string \<times> string) list" where
  "pub_modules = [(''public/js/a.js'', ''export const a = 1;'')]"

definition pub_map :: ImportMap where
  "pub_map =
     \<lparr>imports = Some [(''a'', ''/public/js/a.js'')],
      scopes = None,
      integrity = Some [(''/public/js/a.js'', ''sha384-sha384[export const a = 1;]'')]\<rparr>"

definition pub_node :: node_env where
  "pub_node = disk_node pub_modules [(''importmap.json'', pub_map), (''public/js/importmap.json'', pub_map)]"

section \<open>Own and inherited properties\<close>


lemma lookup_plain:
  "k \<notin> set object_prototype_keys \<Longrightarrow> lookup obj k = map_option Str (own obj k)"
  by (auto simp add: own_def lookup_def split: option.splits)

lemma truthy_plain:
  assumes "k \<notin> set object_prototype_keys"
  shows "truthy (lookup obj k) = (\<exists>d. own obj k = Some d \<and> d \<noteq> [])"
  using assms by (cases "own obj k") (simp_all add: lookup_plain truthy_def)

section \<open>Aliased integrity entries\<close>

lemma alias_scan_None:
  "(alias_scan m r al = None) =
     (\<forall>(b, t) \<in> set al. \<not> (Str t = r \<and> hasIntegrityCheck b m))"
  by (induction al) (auto split: if_splits)

lemma alias_scan_first:
  "alias_scan m r al = Some b \<Longrightarrow>
     \<exists>pre t post. al = pre @ (b, t) # post \<and> Str t = r \<and> hasIntegrityCheck b m
        \<and> alias_scan m r pre = None"
proof (induction al)
  case Nil
  then show ?case by simp
next
  case (Cons e al)
  obtain b0 t0 where e: "e = (b0, t0)" by (cases e)
  show ?case
  proof (cases "Str t0 = r \<and> hasIntegrityCheck b0 m")
    case True
    with Cons.prems e have "b = b0" by simp
    with True e have "e # al = [] @ (b, t0) # al \<and> Str t0 = r \<and> hasIntegrityCheck b m
        \<and> alias_scan m r [] = None"
      by simp
    then show ?thesis by blast
  next
    case False
    with Cons.prems e have "alias_scan m r al = Some b" by auto
    from Cons.IH [OF this] obtain pre t post where
      al: "al = pre @ (b, t) # post" and t: "Str t = r" and h: "hasIntegrityCheck b m"
      and pre: "alias_scan m r pre = None"
      by blast
    have "e # al = (e # pre) @ (b, t) # post \<and> Str t = r \<and> hasIntegrityCheck b m
        \<and> alias_scan m r (e # pre) = None"
      using al t h pre False e by auto
    then show ?thesis by blast
  qed
qed

text \<open>
  C1, as the code has it. The claim fails in module-integrity-client.js: there
  \<open>verifyIntegrity\<close> takes the hash of the alias and checks the fetched text against
  it, and \<open>importWithIntegrity\<close> imports the module when they agree. On the page
  \<open>alias_map\<close>, whose only hash stands under the alias \<open>bare2\<close>, importing
  \<open>log?name=G\<close> fetches \<open>log?name=F\<close>, digests it and imports it.
\<close>

theorem alias_hash_substituted_counterexample:
  "resolveSpecifier (Some alias_map) ''log?name=G'' = Str ''log?name=F''
   \<and> own (integrity alias_map) ''log?name=F'' = None
   \<and> entries (imports alias_map) = [(''log?name=G'', ''log?name=F''), (''bare2'', ''log?name=F'')]
   \<and> own (integrity alias_map) ''bare2'' = Some ''sha384-b64[module F]''
   \<and> mic_importWithIntegrity (stub_browser [(''log?name=F'', ''module F'')]) (Some alias_map)
        ''log?name=G''
       = ([Fetch ''log?name=F'', Digest ''SHA-384'' ''module F''], Import ''log?name=F'')"
  by (simp add: mic_importWithIntegrity_def resolveSpecifier_def hasIntegrityConstraint_def
      mic_verifyIntegrity_def selected_integrity_def mic_calculateIntegrity_def
      alias_map_def stub_browser_def stub_digest_def truthy_def lookup_def own_def entries_def
      startsWith_def text_of_def object_prototype_keys_def Let_def)

text \<open>
  C1, amended: in import-map.ts, let a specifier resolve to a URL that is no property
  name of \<open>Object.prototype\<close>, and let no entry of \<open>imports\<close> map such a name
  to the URL. When \<open>integrity\<close> has no entry keyed by the URL while some entry of \<open>imports\<close>
  targets the URL under a specifier with an \<open>integrity\<close> entry (a digest string,
  hence not empty), \<open>importWithIntegrity\<close> throws
  \<open>Integrity check failed for module: url (via alias)\<close>, where the alias is the first
  entry of \<open>imports\<close>, in the order of \<open>imports\<close>, that targets the URL and has a
  non-empty \<open>integrity\<close> entry; it imports nothing and causes no fetch and no
  digest, so no hash, the alias's included, is compared with the module's bytes.
\<close>

theorem aliased_entry_rejects:
  assumes "resolveModuleSpecifier s m = Str url"
    and "url \<notin> set object_prototype_keys"
    and "\<forall>(a, t) \<in> set (entries (imports m)). t = url \<longrightarrow> a \<notin> set object_prototype_keys"
    and "own (integrity m) url = None"
    and "(b, url) \<in> set (entries (imports m))"
    and "own (integrity m) b = Some d"
    and "d \<noteq> []"
  shows "\<exists>pre b' d' post.
           entries (imports m) = pre @ (b', url) # post
         \<and> own (integrity m) b' = Some d' \<and> d' \<noteq> []
         \<and> (\<forall>(a, t) \<in> set pre. t = url \<longrightarrow> own (integrity m) a \<in> {None, Some []})
         \<and> importWithIntegrity env s m = ([], Reject (failed_via_msg url b'))"
proof -
  have check: "hasIntegrityCheck a m = (\<exists>x. own (integrity m) a = Some x \<and> x \<noteq> [])"
    if "(a, url) \<in> set (entries (imports m))" for a
    using assms(3) that by (auto simp add: hasIntegrityCheck_def truthy_plain)
  have "hasIntegrityCheck b m"
    using check [OF assms(5)] assms(6,7) by simp
  with assms(5) have "alias_scan m (Str url) (entries (imports m)) \<noteq> None"
    unfolding alias_scan_None by blast
  then obtain b' where b': "alias_scan m (Str url) (entries (imports m)) = Some b'"
    by blast
  from alias_scan_first [OF b'] obtain pre t post where
    split: "entries (imports m) = pre @ (b', t) # post" and t: "t = url"
    and hb': "hasIntegrityCheck b' m" and pre: "alias_scan m (Str url) pre = None"
    by auto
  have mem: "(b', url) \<in> set (entries (imports m))"
    using split t by simp
  from check [OF mem] hb' obtain d' where d': "own (integrity m) b' = Some d'" "d' \<noteq> []"
    by blast
  have before: "own (integrity m) a \<in> {None, Some []}" if a: "(a, url) \<in> set pre" for a
  proof -
    from a split have "(a, url) \<in> set (entries (imports m))" by simp
    from check [OF this]
    have "hasIntegrityCheck a m = (\<exists>x. own (integrity m) a = Some x \<and> x \<noteq> [])" .
    moreover from pre a have "\<not> hasIntegrityCheck a m"
      unfolding alias_scan_None by auto
    ultimately show ?thesis
      by (cases "own (integrity m) a") auto
  qed
  have direct: "\<not> truthy (getIntegrityHash url m)"
    using assms(2,4) by (simp add: getIntegrityHash_def truthy_plain)
  have "importWithIntegrity env s m = ([], Reject (failed_via_msg url b'))"
    using assms(1) direct b'
    by (simp add: importWithIntegrity_def Let_def text_of_def)
  with split t d' before show ?thesis
    by auto
qed

theorem aliased_entry_rejects_witness:
  "resolveModuleSpecifier ''log?name=G'' test_map = Str ''log?name=F''
   \<and> own (integrity test_map) ''log?name=F'' = None
   \<and> entries (imports test_map) =
       [(''log?name=A'', ''log?name=B''), (''log?name=C'', ''log?name=D''),
        (''log?name=G'', ''log?name=F''), (''bare'', ''log?name=E'')]
       @ (''bare2'', ''log?name=F'') # []
   \<and> own (integrity test_map) ''log?name=G'' = None
   \<and> own (integrity test_map) ''bare2'' = Some ''sha384-Li9vy3DqF8tnTXuiaAJuML3ky+yr10rcgNR''
   \<and> importWithIntegrity (stub_browser [(''log?name=F'', ''module F'')]) ''log?name=G'' test_map
     = ([], Reject ''Integrity check failed for module: log?name=F (via bare2)'')"
proof -
  have res: "resolveModuleSpecifier ''log?name=G'' test_map = Str ''log?name=F''"
    by (simp add: resolveModuleSpecifier_def test_map_def has_property_def lookup_def)
  have plain: "''log?name=F'' \<notin> set object_prototype_keys"
    by (simp add: object_prototype_keys_def)
  have aliases: "\<forall>(a, t) \<in> set (entries (imports test_map)).
      t = ''log?name=F'' \<longrightarrow> a \<notin> set object_prototype_keys"
    by (simp add: test_map_def entries_def object_prototype_keys_def)
  have none: "own (integrity test_map) ''log?name=F'' = None"
    by (simp add: test_map_def own_def)
  have mem: "(''bare2'', ''log?name=F'') \<in> set (entries (imports test_map))"
    by (simp add: test_map_def entries_def)
  have d: "own (integrity test_map) ''bare2'' = Some ''sha384-Li9vy3DqF8tnTXuiaAJuML3ky+yr10rcgNR''"
    by (simp add: test_map_def own_def)
  have g: "own (integrity test_map) ''log?name=G'' = None"
    by (simp add: test_map_def own_def)
  from aliased_entry_rejects [OF res plain aliases none mem d, of "stub_browser [(''log?name=F'', ''module F'')]"]
  obtain pre b' d' post where
    split: "entries (imports test_map) = pre @ (b', ''log?name=F'') # post"
    and d': "own (integrity test_map) b' = Some d'" "d' \<noteq> []"
    and run: "importWithIntegrity (stub_browser [(''log?name=F'', ''module F'')]) ''log?name=G''
        test_map = ([], Reject (failed_via_msg ''log?name=F'' b'))"
    by auto
  from split have "(b', ''log?name=F'') \<in> set (entries (imports test_map))"
    by simp
  then have "b' = ''log?name=G'' \<or> b' = ''bare2''"
    by (auto simp add: test_map_def entries_def)
  with d' g have "b' = ''bare2''" by auto
  with run res none d g show ?thesis
    by (simp add: failed_via_msg_def failed_msg_def test_map_def entries_def)
qed

section \<open>Resolution of a specifier\<close>

text \<open>
  C2, as the code has it. \<open>resolveModuleSpecifier\<close> takes no referrer and does not
  read \<open>scopes\<close>: on \<open>scoped_map\<close>, for a module under the scope \<open>/legacy/\<close>,
  the specification's resolution gives the scope's URL and the code the top-level one.
\<close>

theorem scopes_not_honoured_counterexample:
  "spec_resolve ''/legacy/app.js'' ''lib'' scoped_map = ''/lib-v1.js''
   \<and> resolveModuleSpecifier ''lib'' scoped_map = Str ''/lib-v2.js''"
  by (simp add: spec_resolve_def resolveModuleSpecifier_def scoped_map_def lookup_def own_def
      has_property_def startsWith_def)

text \<open>
  C2, amended: \<open>resolveModuleSpecifier\<close> gives the same result whatever
  \<open>scopes\<close> holds. For a specifier that is an own key of \<open>imports\<close>, or is no
  property name of \<open>Object.prototype\<close>, or when the map has no \<open>imports\<close>, it
  returns \<open>imports[specifier]\<close> when the specifier is a key of \<open>imports\<close> and the
  specifier itself otherwise; for these specifiers it is the specification's resolution
  for every referrer that no scope applies to.
\<close>

theorem resolve_by_imports_only:
  "resolveModuleSpecifier s (m\<lparr>scopes := sc\<rparr>) = resolveModuleSpecifier s m
   \<and> (own (imports m) s \<noteq> None \<or> s \<notin> set object_prototype_keys \<or> imports m = None \<longrightarrow>
        resolveModuleSpecifier s m = Str (case own (imports m) s of None \<Rightarrow> s | Some u \<Rightarrow> u)
      \<and> (scopes m = None \<or> longest_scope referrer (the (scopes m)) = None \<longrightarrow>
           Str (spec_resolve referrer s m) = resolveModuleSpecifier s m))"
  by (auto simp add: resolveModuleSpecifier_def lookup_def own_def has_property_def
      spec_resolve_def split: option.splits)

theorem resolve_by_imports_only_witness:
  "own (imports scoped_map) ''lib'' = Some ''/lib-v2.js''
   \<and> resolveModuleSpecifier ''lib'' scoped_map = Str ''/lib-v2.js''
   \<and> resolveModuleSpecifier ''lib'' (scoped_map\<lparr>scopes := None\<rparr>) = Str ''/lib-v2.js''
   \<and> longest_scope ''/app/main.js'' (the (scopes scoped_map)) = None
   \<and> spec_resolve ''/app/main.js'' ''lib'' scoped_map = ''/lib-v2.js''"
proof -
  note t = resolve_by_imports_only [where s = "''lib''" and m = scoped_map and sc = None
      and referrer = "''/app/main.js''"]
  have key: "own (imports scoped_map) ''lib'' = Some ''/lib-v2.js''"
    by (simp add: scoped_map_def own_def)
  have no_scope: "longest_scope ''/app/main.js'' (the (scopes scoped_map)) = None"
    by (simp add: scoped_map_def startsWith_def)
  from t key have r: "resolveModuleSpecifier ''lib'' scoped_map = Str ''/lib-v2.js''"
    by simp
  from t have r2: "resolveModuleSpecifier ''lib'' (scoped_map\<lparr>scopes := None\<rparr>) =
      resolveModuleSpecifier ''lib'' scoped_map"
    by blast
  from t key no_scope have "Str (spec_resolve ''/app/main.js'' ''lib'' scoped_map) =
      resolveModuleSpecifier ''lib'' scoped_map"
    by simp
  with r have r3: "spec_resolve ''/app/main.js'' ''lib'' scoped_map = ''/lib-v2.js''"
    by simp
  from key r r2 no_scope r3 show ?thesis
    by simp
qed

section \<open>Modules without an integrity entry\<close>

text \<open>
  C4. A module with no integrity entry, neither under its URL nor under a specifier
  mapped to it, is to be imported without verification. \<open>importWithIntegrity\<close> of
  import-map.ts tests \<open>integrity[name]\<close> for truthiness, which an inherited property
  of \<open>Object.prototype\<close> satisfies: on \<open>inherited_map\<close>, whose \<open>integrity\<close> is
  empty, the module \<open>/x.js\<close> is refused because its specifier is \<open>toString\<close>, both
  when it is imported by its specifier and by its URL.
\<close>

theorem unconstrained_module_refused:
  "own (integrity inherited_map) ''/x.js'' = None
   \<and> own (integrity inherited_map) ''toString'' = None
   \<and> entries (imports inherited_map) = [(''toString'', ''/x.js'')]
   \<and> importWithIntegrity (stub_browser [(''/x.js'', ''export {}'')]) ''toString'' inherited_map
       = ([], Reject ''Integrity check failed for module: /x.js (via toString)'')
   \<and> importWithIntegrity (stub_browser [(''/x.js'', ''export {}'')]) ''/x.js'' inherited_map
       = ([], Reject ''Integrity check failed for module: /x.js (via toString)'')"
  by (simp add: importWithIntegrity_def resolveModuleSpecifier_def getIntegrityHash_def
      hasIntegrityCheck_def lookup_def own_def has_property_def truthy_def entries_def
      inherited_map_def text_of_def failed_via_msg_def failed_msg_def
      object_prototype_keys_def Let_def)

text \<open>Where no property name of \<open>Object.prototype\<close> is involved, such a module is
  handed to \<open>import\<close> with no fetch and no digest.\<close>

lemma unconstrained_import_plain_names:
  assumes "resolveModuleSpecifier s m = Str url"
    and "url \<notin> set object_prototype_keys"
    and "own (integrity m) url = None"
    and "\<forall>(b, t) \<in> set (entries (imports m)).
           t = url \<longrightarrow> b \<notin> set object_prototype_keys \<and> own (integrity m) b = None"
  shows "importWithIntegrity env s m = ([], Import url)"
proof -
  have "alias_scan m (Str url) (entries (imports m)) = None"
    unfolding alias_scan_None using assms(4)
    by (auto simp add: hasIntegrityCheck_def truthy_plain)
  moreover have "\<not> truthy (getIntegrityHash url m)"
    using assms(2,3) by (simp add: getIntegrityHash_def truthy_plain)
  ultimately show ?thesis
    using assms(1) by (simp add: importWithIntegrity_def Let_def text_of_def)
qed

section \<open>Directly constrained modules are fetched, hashed and compared\<close>



section \<open>The counters of the batch validator\<close>

lemma validateNextJS_entry_counters:
  assumes "validateNextJS_entry env dir r e = Inr r'"
    and "total r = passed r + failed r + missing r"
    and "length (failures r) = failed r + missing r"
  shows "total r' = passed r' + failed r' + missing r' \<and>
         length (failures r') = failed r' + missing r'"
  using assms
  by (cases e)
     (auto simp add: validateNextJS_entry_def Let_def split: if_splits option.splits)

lemma validateNextJS_entries_counters:
  assumes "validateNextJS_entries env dir r es = Inr r'"
    and "total r = passed r + failed r + missing r"
    and "length (failures r) = failed r + missing r"
  shows "total r' = passed r' + failed r' + missing r' \<and>
         length (failures r') = failed r' + missing r'"
  using assms
proof (induction es arbitrary: r)
  case Nil
  then show ?case by simp
next
  case (Cons e es)
  from Cons.prems(1) obtain r1 where
    step: "validateNextJS_entry env dir r e = Inr r1"
    and rest: "validateNextJS_entries env dir r1 es = Inr r'"
    by (auto split: sum.splits)
  from validateNextJS_entry_counters [OF step Cons.prems(2,3)]
  show ?case
    using Cons.IH [OF rest] by blast
qed

text \<open>
  C10. When \<open>validateNextJSBuildIntegrity\<close> returns its results, \<open>total\<close> is
  \<open>passed + failed + missing\<close>, \<open>failures\<close> has one record for each failed or
  missing entry, and \<open>success\<close> is true exactly when \<open>failures\<close> is empty, that
  is when \<open>failed\<close> and \<open>missing\<close> are both zero.
\<close>

theorem validator_counters_consistent:
  assumes "validateNextJSBuildIntegrity env config = Inr r"
  shows "total r = passed r + failed r + missing r
       \<and> length (failures r) = failed r + missing r
       \<and> (success r \<longleftrightarrow> failures r = [])
       \<and> (success r \<longleftrightarrow> failed r = 0 \<and> missing r = 0)"
proof -
  from assms obtain dir integ r0 where
    loop: "validateNextJS_entries env dir
             \<lparr>total = 0, passed = 0, failed = 0, missing = 0, failures = [], success = False\<rparr>
             integ = Inr r0"
    and r: "r = (if length (failures r0) > 0 then r0\<lparr>success := False\<rparr>
                 else r0\<lparr>success := True\<rparr>)"
    by (auto simp add: validateNextJSBuildIntegrity_def Let_def
        split: if_splits option.splits sum.splits)
  have "total r0 = passed r0 + failed r0 + missing r0 \<and>
        length (failures r0) = failed r0 + missing r0"
    using validateNextJS_entries_counters [OF loop] by simp
  then show ?thesis
    unfolding r by (cases "failures r0") auto
qed

theorem validator_counters_witness:
  "validateNextJSBuildIntegrity dist_node dist_config =
     Inr \<lparr>total = 3, passed = 1, failed = 1, missing = 1,
          failures = [not_found ''/gone.js'' ''sha384-sha384[export const g = 1;]'',
                      unsupported ''a.js'' ''sha256-sha256[export const a = 1;]''],
          success = False\<rparr>"
  using validator_counters_consistent [of dist_node dist_config]
  by (simp add: validateNextJSBuildIntegrity_def validateNextJS_entry_def dist_node_def
      dist_config_def config_distDir_def config_importMapPath_def dist_map_def disk_node_def posix_join_def file_path_def startsWith_def
      toy_hash_def truthy_def Let_def)

section \<open>Missing files in the batch validators\<close>

lemma validateBuildOutput_entries_append:
  "validateBuildOutput_entries env dir r (xs @ ys) =
     (case validateBuildOutput_entries env dir r xs of
        Inl t \<Rightarrow> Inl t
      | Inr r1 \<Rightarrow> validateBuildOutput_entries env dir r1 ys)"
  by (induction xs arbitrary: r) (auto split: sum.splits)

lemma validateNextJS_entries_append:
  "validateNextJS_entries env dir r (xs @ ys) =
     (case validateNextJS_entries env dir r xs of
        Inl t \<Rightarrow> Inl t
      | Inr r1 \<Rightarrow> validateNextJS_entries env dir r1 ys)"
  by (induction xs arbitrary: r) (auto split: sum.splits)

lemma validateBuildOutput_entry_missing:
  assumes "file_path env u = Some filePath"
    and "\<not> existsSync env (path_join env dir filePath)"
  shows "validateBuildOutput_entry env dir r (u, h) = Inr (count_missing u h r)"
  using assms by (simp add: validateBuildOutput_entry_def count_missing_def Let_def)

lemma validateNextJS_entry_missing:
  assumes "file_path env u = Some filePath"
    and "\<not> existsSync env (path_join env dir filePath)"
    and "startsWith h ''sha384-''"
  shows "validateNextJS_entry env dir r (u, h) = Inr (count_missing u h r)"
  using assms by (simp add: validateNextJS_entry_def count_missing_def Let_def)

text \<open>
  C6, as the code has it. \<open>validateNextJSBuildIntegrity\<close> looks at the digest
  string before it looks for the file: an entry whose digest does not start with
  \<open>sha384-\<close> is counted in \<open>failed\<close> with the reason of an unsupported
  algorithm, also when its file does not exist; \<open>missing\<close> stays 0.
\<close>

theorem missing_file_with_foreign_digest_counterexample:
  "file_path gone_node ''/gone.js'' = Some ''gone.js''
   \<and> \<not> existsSync gone_node (path_join gone_node ''dist'' ''gone.js'')
   \<and> validateNextJSBuildIntegrity gone_node dist_config =
       Inr \<lparr>total = 1, passed = 0, failed = 1, missing = 0,
            failures = [\<lparr>failure_url = ''/gone.js'',
                         expected = ''sha256-sha256[export const g = 1;]'',
                         actual = None,
                         error = Some ''Unsupported hash algorithm. Only SHA-384 is supported.''\<rparr>],
            success = False\<rparr>"
  by (simp add: validateNextJSBuildIntegrity_def validateNextJS_entry_def gone_node_def
      gone_map_def dist_config_def config_distDir_def config_importMapPath_def disk_node_def posix_join_def file_path_def startsWith_def
      unsupported_def truthy_def Let_def)

text \<open>
  C6, amended: an entry of \<open>integrity\<close> whose file path does not exist (and, in
  \<open>validateNextJSBuildIntegrity\<close>, whose digest string starts with \<open>sha384-\<close>)
  adds one to \<open>total\<close> and to \<open>missing\<close> and appends the failure
  \<open>{url, expected, error: 'File not found'}\<close>; the loop then goes on with the
  entries after it, from these results. This holds in \<open>validateBuildOutput\<close> and in
  \<open>validateNextJSBuildIntegrity\<close>, wherever the entry stands among the others.
\<close>

theorem missing_file_counted_and_loop_continues:
  assumes "file_path env u = Some filePath"
    and "\<not> existsSync env (path_join env dir filePath)"
  shows "validateBuildOutput_entries env dir r (xs @ (u, h) # ys) =
           (case validateBuildOutput_entries env dir r xs of
              Inl t \<Rightarrow> Inl t
            | Inr r1 \<Rightarrow> validateBuildOutput_entries env dir (count_missing u h r1) ys)
       \<and> (startsWith h ''sha384-'' \<longrightarrow>
            validateNextJS_entries env dir r' (xs @ (u, h) # ys) =
              (case validateNextJS_entries env dir r' xs of
                 Inl t \<Rightarrow> Inl t
               | Inr r1 \<Rightarrow> validateNextJS_entries env dir (count_missing u h r1) ys))"
  using assms
  by (simp add: validateBuildOutput_entries_append validateNextJS_entries_append
      validateBuildOutput_entry_missing validateNextJS_entry_missing split: sum.splits)

theorem missing_file_witness:
  "file_path dist_node ''/gone.js'' = Some ''gone.js''
   \<and> \<not> existsSync dist_node (path_join dist_node ''dist'' ''gone.js'')
   \<and> startsWith ''sha384-sha384[export const g = 1;]'' ''sha384-''
   \<and> validateBuildOutput_entries dist_node ''dist'' no_results
       ([(''/a.js'', ''sha384-sha384[export const a = 1;]'')]
         @ (''/gone.js'', ''sha384-sha384[export const g = 1;]'')
         # [(''a.js'', ''sha256-sha256[export const a = 1;]'')])
     = Inr \<lparr>total = 3, passed = 2, failed = 0, missing = 1,
            failures = [not_found ''/gone.js'' ''sha384-sha384[export const g = 1;]'']\<rparr>
   \<and> validateNextJS_entries dist_node ''dist'' no_nextjs_results
       ([(''/a.js'', ''sha384-sha384[export const a = 1;]'')]
         @ (''/gone.js'', ''sha384-sha384[export const g = 1;]'')
         # [(''a.js'', ''sha256-sha256[export const a = 1;]'')])
     = Inr \<lparr>total = 3, passed = 1, failed = 1, missing = 1,
            failures = [not_found ''/gone.js'' ''sha384-sha384[export const g = 1;]'',
                        unsupported ''a.js'' ''sha256-sha256[export const a = 1;]''],
            success = False\<rparr>"
  using missing_file_counted_and_loop_continues [of dist_node "''/gone.js''" "''gone.js''" "''dist''"
      no_results "[(''/a.js'', ''sha384-sha384[export const a = 1;]'')]"
      "''sha384-sha384[export const g = 1;]''" "[(''a.js'', ''sha256-sha256[export const a = 1;]'')]"
      no_nextjs_results]
  by (simp add: validateBuildOutput_entry_def validateNextJS_entry_def dist_node_def
      disk_node_def posix_join_def file_path_def startsWith_def toy_hash_def algorithm_tag_def
      count_missing_def no_results_def no_nextjs_results_def Let_def)

section \<open>Digest strings of another algorithm\<close>

lemma tag_of_sha384_prefix:
  assumes "startsWith d ''sha384-''"
  shows "algorithm_tag d = ''sha384''"
proof -
  from assms have "take (length ''sha384-'') d = ''sha384-''"
    by (simp only: startsWith_def)
  then have "d = ''sha384-'' @ drop (length ''sha384-'') d"
    by (metis append_take_drop_id)
  then obtain rest where "d = ''sha384-'' @ rest" ..
  then show ?thesis
    by (simp add: algorithm_tag_def)
qed

lemma indirect_integrity_constraint:
  "indirect_integrity m v al = Some d \<Longrightarrow> indirect_constraint m v al"
  by (induction al) (auto split: if_splits)

lemma selected_integrity_constraint:
  assumes "truthy (selected_integrity env m v)"
  shows "hasIntegrityConstraint env (Some m) v"
proof (cases "truthy (lookup (integrity m) (text_of env v))")
  case True
  then show ?thesis by (simp add: hasIntegrityConstraint_def)
next
  case False
  with assms obtain al d where al: "imports m = Some al"
    and d: "indirect_integrity m v al = Some d"
    by (auto simp add: selected_integrity_def Let_def entries_def
        split: if_splits option.splits)
  from indirect_integrity_constraint [OF d] al False show ?thesis
    by (simp add: hasIntegrityConstraint_def)
qed

text \<open>
  C3, as the code has it. \<open>validateBuildOutput\<close> hashes the file with the algorithm
  that the digest string names (\<open>expectedHash.split('-')[0]\<close>): in a build
  directory whose only entry carries the \<open>sha256\<close> digest of its file, the entry
  passes.
\<close>

theorem foreign_algorithm_hashed_counterexample:
  "validateBuildOutput sha256_node ''dist'' =
     Done \<lparr>total = 1, passed = 1, failed = 0, missing = 0, failures = []\<rparr>"
  by (simp add: validateBuildOutput_def validateBuildOutput_entry_def sha256_node_def
      sha256_map_def disk_node_def posix_join_def file_path_def startsWith_def toy_hash_def
      algorithm_tag_def Let_def)

text \<open>
  C3, amended: for a digest string whose algorithm tag is not \<open>sha384\<close>,
  \<open>verifyIntegrity\<close> of module-integrity-client.js, when that string is the
  (non-empty) hash it selects for the resolved URL, returns false without a fetch or a
  digest,
  and \<open>importWithIntegrity\<close> throws \<open>Integrity check failed for module: url\<close>;
  and one turn of the loop of \<open>validateNextJSBuildIntegrity\<close> counts the entry in
  \<open>total\<close> and \<open>failed\<close> with the failure
  \<open>Unsupported hash algorithm. Only SHA-384 is supported.\<close>, on every file system
  and with every digest function: the file is neither looked for nor hashed.
\<close>

theorem foreign_algorithm_rejected:
  assumes "algorithm_tag d \<noteq> ''sha384''"
  shows "(selected_integrity env m v = Some (Str d) \<and> d \<noteq> [] \<longrightarrow>
            mic_verifyIntegrity env (Some m) v = ([], Verdict False)
          \<and> (resolveSpecifier (Some m) s = v \<longrightarrow>
               mic_importWithIntegrity env (Some m) s = ([], Reject (failed_msg (text_of env v)))))
       \<and> validateNextJS_entry nenv dir r (u', d) = Inr (count_unsupported u' d r)"
proof -
  from assms have no_prefix: "\<not> startsWith d ''sha384-''"
    using tag_of_sha384_prefix by blast
  have batch: "validateNextJS_entry nenv dir r (u', d) = Inr (count_unsupported u' d r)"
    using no_prefix by (simp add: validateNextJS_entry_def count_unsupported_def Let_def)
  have single: "mic_verifyIntegrity env (Some m) v = ([], Verdict False)"
    if "selected_integrity env m v = Some (Str d)" "d \<noteq> []"
    using that no_prefix by (simp add: mic_verifyIntegrity_def Let_def truthy_def)
  have whole: "mic_importWithIntegrity env (Some m) s = ([], Reject (failed_msg (text_of env v)))"
    if sel: "selected_integrity env m v = Some (Str d)" "d \<noteq> []"
      and "resolveSpecifier (Some m) s = v"
  proof -
    have "hasIntegrityConstraint env (Some m) v"
      using selected_integrity_constraint [of env m v] sel by (simp add: truthy_def)
    then show ?thesis
      using single [OF sel] that(3) by (simp add: mic_importWithIntegrity_def Let_def)
  qed
  from batch single whole show ?thesis by blast
qed

theorem foreign_algorithm_rejected_witness:
  "algorithm_tag ''sha256-b64[export {}]'' = ''sha256''
   \<and> selected_integrity (stub_browser [(''./module/shapes/square.js'', ''export {}'')])
        sha256_page (Str ''./module/shapes/square.js'') = Some (Str ''sha256-b64[export {}]'')
   \<and> resolveSpecifier (Some sha256_page) ''square'' = Str ''./module/shapes/square.js''
   \<and> mic_importWithIntegrity (stub_browser [(''./module/shapes/square.js'', ''export {}'')])
        (Some sha256_page) ''square''
       = ([], Reject ''Integrity check failed for module: ./module/shapes/square.js'')
   \<and> validateNextJS_entry sha256_node ''dist'' no_nextjs_results
        (''/a.js'', ''sha256-b64[export {}]'')
       = Inr \<lparr>total = 1, passed = 0, failed = 1, missing = 0,
              failures = [unsupported ''/a.js'' ''sha256-b64[export {}]''], success = False\<rparr>"
  using foreign_algorithm_rejected [where d = "''sha256-b64[export {}]''" and m = sha256_page
      and v = "Str ''./module/shapes/square.js''"
      and env = "stub_browser [(''./module/shapes/square.js'', ''export {}'')]"
      and s = "''square''" and nenv = sha256_node and dir = "''dist''"
      and r = no_nextjs_results and u' = "''/a.js''"]
  by (simp add: algorithm_tag_def selected_integrity_def sha256_page_def square_map_def
      lookup_def truthy_def resolveSpecifier_def failed_msg_def count_unsupported_def
      no_nextjs_results_def text_of_def Let_def)

section \<open>The generator\<close>

lemma set_insert_index: "set (insert_index n kv al) = insert kv (set al)"
  by (induction al) (auto split: option.splits)

lemma map_of_insert_index:
  "fst kv \<notin> fst ` set al \<Longrightarrow> map_of (insert_index n kv al) = (map_of al)(fst kv \<mapsto> snd kv)"
proof (induction al)
  case Nil
  then show ?case by simp
next
  case (Cons e al)
  then have ne: "fst e \<noteq> fst kv" and rest: "fst kv \<notin> fst ` set al"
    by auto
  show ?case
    using Cons.IH [OF rest] ne
    by (auto simp add: fun_upd_twist split: option.splits)
qed

lemma distinct_insert_index:
  "fst kv \<notin> fst ` set al \<Longrightarrow> distinct (map fst al) \<Longrightarrow>
     distinct (map fst (insert_index n kv al))"
proof (induction al)
  case Nil
  then show ?case by simp
next
  case (Cons e al)
  then have ne: "fst e \<noteq> fst kv" and rest: "fst kv \<notin> fst ` set al"
    and d: "distinct (map fst al)" and e: "fst e \<notin> fst ` set al"
    by auto
  have "fst e \<notin> fst ` set (insert_index n kv al)"
    using ne e by (simp add: set_insert_index)
  with Cons.IH [OF rest d] Cons.prems show ?case
    by (auto split: option.splits)
qed

lemma map_of_obj_set:
  "map_of (obj_set k v al) = (if k = ''__proto__'' then map_of al else (map_of al)(k \<mapsto> v))"
proof (cases "map_of al k")
  case None
  then have "k \<notin> fst ` set al"
    by (simp add: map_of_eq_None_iff)
  then have "map_of (insert_index n (k, v) al) = (map_of al)(k \<mapsto> v)" for n
    using map_of_insert_index [of "(k, v)" al n] by simp
  moreover have "map_of (al @ [(k, v)]) = (map_of al)(k \<mapsto> v)"
    using None by (auto simp add: fun_eq_iff map_add_def split: option.splits)
  ultimately show ?thesis
    using None by (simp add: obj_set_def split: option.splits)
next
  case (Some old)
  then show ?thesis
    by (simp add: obj_set_def update_conv')
qed

lemma distinct_obj_set:
  assumes "distinct (map fst al)"
  shows "distinct (map fst (obj_set k v al))"
proof (cases "map_of al k")
  case None
  then have "k \<notin> fst ` set al"
    by (simp add: map_of_eq_None_iff)
  then have "distinct (map fst (insert_index n (k, v) al))" for n
    using distinct_insert_index [of "(k, v)" al n] assms by simp
  moreover have "distinct (map fst (al @ [(k, v)]))"
    using assms \<open>k \<notin> fst ` set al\<close> by simp
  ultimately show ?thesis
    using None assms by (simp add: obj_set_def split: option.splits)
next
  case (Some old)
  then show ?thesis
    using assms by (simp add: obj_set_def distinct_update)
qed



lemma obj_set_Nil: "obj_set k v [] = (if k = ''__proto__'' then [] else [(k, v)])"
  by (simp add: obj_set_def split: option.splits)

text \<open>The value that stands under a name after a sequence of assignments: that of the
  last assignment to the name, and nothing under \<open>__proto__\<close>.\<close>

lemma map_of_fold_obj_set:
  "map_of (fold (\<lambda>(p, c). obj_set (f p c) (g p c)) ms al) k =
     (if k = ''__proto__'' then map_of al k
      else (case map_of (rev (map (\<lambda>(p, c). (f p c, g p c)) ms)) k of
              Some v \<Rightarrow> Some v
            | None \<Rightarrow> map_of al k))"
proof (induction ms arbitrary: al)
  case Nil
  then show ?case by simp
next
  case (Cons pc ms)
  obtain p c where pc: "pc = (p, c)" by (cases pc)
  show ?case
    by (simp add: pc Cons.IH map_of_obj_set map_add_def split: option.splits)
qed

lemma distinct_fold_obj_set:
  "distinct (map fst al) \<Longrightarrow>
     distinct (map fst (fold (\<lambda>(p, c). obj_set (f p c) (g p c)) ms al))"
proof (induction ms arbitrary: al)
  case Nil
  then show ?case by simp
next
  case (Cons pc ms)
  then show ?case
    by (cases pc) (simp add: distinct_obj_set)
qed


lemma keys_fold_obj_set:
  "fst ` set (fold (\<lambda>(p, c). obj_set (f p c) (g p c)) ms []) =
     (\<lambda>(p, c). f p c) ` set ms - {''__proto__''}"
proof -
  let ?al = "fold (\<lambda>(p, c). obj_set (f p c) (g p c)) ms []"
  have "fst ` set ?al = dom (map_of ?al)"
    by (simp add: dom_map_of_conv_image_fst)
  also have "\<dots> = {k. k \<noteq> ''__proto__'' \<and>
      map_of (rev (map (\<lambda>(p, c). (f p c, g p c)) ms)) k \<noteq> None}"
    by (auto simp add: dom_def map_of_fold_obj_set split: option.splits)
  also have "\<dots> = (\<lambda>(p, c). f p c) ` set ms - {''__proto__''}"
    by (force simp add: map_of_eq_None_iff image_iff)
  finally show ?thesis .
qed

lemma length_distinct_keys:
  assumes "distinct (map fst al)"
  shows "length al = card (fst ` set al)"
  using assms distinct_card [of "map fst al"] by simp

lemma length_fold_obj_set:
  "length (fold (\<lambda>(p, c). obj_set (f p c) (g p c)) ms []) =
     card ((\<lambda>(p, c). f p c) ` set ms - {''__proto__''})"
proof -
  have "distinct (map fst (fold (\<lambda>(p, c). obj_set (f p c) (g p c)) ms []))"
    by (rule distinct_fold_obj_set) simp
  from length_distinct_keys [OF this] show ?thesis
    by (simp add: keys_fold_obj_set)
qed

lemma generate_entries_fold:
  assumes "createHash env ''sha384'' = Some h"
  shows "generate_entries env b acc ms =
     Inr (fold (\<lambda>(p, c). obj_set (module_specifier env p) (module_url env b p)) ms (fst acc),
          fold (\<lambda>(p, c). obj_set (module_url env b p) (''sha384-'' @ h c)) ms (snd acc))"
proof (induction ms arbitrary: acc)
  case Nil
  then show ?case by simp
next
  case (Cons pc ms)
  show ?case
    using assms by (cases pc) (simp add: Cons.IH ts_calculateIntegrity_def)
qed

lemma generate_ok:
  assumes "createHash env ''sha384'' = Some h" and "ms \<noteq> []"
  shows "generateImportMapWithIntegrity env ms b =
     Inr \<lparr>imports = Some (fold (\<lambda>(p, c). obj_set (module_specifier env p) (module_url env b p)) ms []),
          scopes = None,
          integrity = Some (fold (\<lambda>(p, c). obj_set (module_url env b p) (''sha384-'' @ h c)) ms [])\<rparr>"
  using assms by (simp add: generateImportMapWithIntegrity_def generate_entries_fold)


text \<open>
  C9, as the code has it. The browser-side generator has no check of its input: on the
  empty mapping it returns the import map with no entries. And the generator of
  module-integrity-typescript.ts names a module by the base name of its path: two
  modules \<open>a/index.js\<close> and \<open>b/index.js\<close> share the specifier \<open>index\<close>, and
  \<open>imports\<close> keeps one entry for both.
\<close>

theorem generator_entries_counterexample:
  "browser_generateImportMapWithIntegrity (stub_browser []) [] =
     Inr \<lparr>imports = Some [], scopes = None, integrity = Some []\<rparr>
   \<and> generateImportMapWithIntegrity (disk_node [] [])
        [(''a/index.js'', ''A''), (''b/index.js'', ''B'')] ''/'' =
     Inr \<lparr>imports = Some [(''index'', ''/b/index.js'')],
          scopes = None,
          integrity = Some [(''/a/index.js'', ''sha384-sha384[A]''),
                            (''/b/index.js'', ''sha384-sha384[B]'')]\<rparr>"
  by (simp add: browser_generateImportMapWithIntegrity_def generateImportMapWithIntegrity_def
      ts_calculateIntegrity_def module_specifier_def module_url_def slashes_def disk_node_def
      posix_join_def posix_basename_def posix_extname_def last_segment_def startsWith_def
      toy_hash_def obj_set_def array_index_def digit_def Let_def)

text \<open>
  C9, amended: \<open>generateImportMapWithIntegrity\<close> of module-integrity-typescript.ts
  throws a \<open>ModuleIntegrityError\<close> on the empty mapping, while the browser-side
  generator returns the empty import map. On a non-empty mapping (the digest being
  available) the former returns a map whose \<open>imports\<close> and \<open>integrity\<close> have
  pairwise distinct keys, where \<open>imports\<close> holds under each name the URL of the last
  module with that specifier, and \<open>integrity\<close> under each name the digest string
  \<open>sha384-<base64>\<close> of the content of the last module with that URL (last write
  wins), and neither holds anything under \<open>__proto__\<close>. So there is one
  \<open>imports\<close> entry for each distinct specifier and one \<open>integrity\<close> entry for
  each distinct URL other than \<open>__proto__\<close>: one entry per module where the
  specifiers, respectively the URLs, are pairwise distinct and none is \<open>__proto__\<close>.
\<close>

theorem generator_entries_per_module:
  "generateImportMapWithIntegrity env [] b =
     Inl (ModuleIntegrityError ''[ModuleIntegrity] No modules provided for integrity calculation'')
   \<and> browser_generateImportMapWithIntegrity benv [] =
     Inr \<lparr>imports = Some [], scopes = None, integrity = Some []\<rparr>
   \<and> (ms \<noteq> [] \<and> createHash env ''sha384'' = Some h \<longrightarrow>
        (\<exists>imps integ.
           generateImportMapWithIntegrity env ms b =
             Inr \<lparr>imports = Some imps, scopes = None, integrity = Some integ\<rparr>
         \<and> distinct (map fst imps) \<and> distinct (map fst integ)
         \<and> (\<forall>k. map_of imps k =
                last_write (map (\<lambda>(p, c). (module_specifier env p, module_url env b p)) ms) k)
         \<and> (\<forall>k. map_of integ k =
                last_write (map (\<lambda>(p, c). (module_url env b p, ''sha384-'' @ h c)) ms) k)
         \<and> length imps = card (module_specifier env ` fst ` set ms - {''__proto__''})
         \<and> length integ = card (module_url env b ` fst ` set ms - {''__proto__''})
         \<and> (distinct (map (module_specifier env \<circ> fst) ms)
              \<and> ''__proto__'' \<notin> module_specifier env ` fst ` set ms \<longrightarrow>
              length imps = length ms)
         \<and> (distinct (map (module_url env b \<circ> fst) ms)
              \<and> ''__proto__'' \<notin> module_url env b ` fst ` set ms \<longrightarrow>
              length integ = length ms)))"
proof -
  have empty: "generateImportMapWithIntegrity env [] b =
      Inl (ModuleIntegrityError ''[ModuleIntegrity] No modules provided for integrity calculation'')"
    by (simp add: generateImportMapWithIntegrity_def)
  have bempty: "browser_generateImportMapWithIntegrity benv [] =
      Inr \<lparr>imports = Some [], scopes = None, integrity = Some []\<rparr>"
    by (simp add: browser_generateImportMapWithIntegrity_def)
  have full: "\<exists>imps integ.
           generateImportMapWithIntegrity env ms b =
             Inr \<lparr>imports = Some imps, scopes = None, integrity = Some integ\<rparr>
         \<and> distinct (map fst imps) \<and> distinct (map fst integ)
         \<and> (\<forall>k. map_of imps k =
                last_write (map (\<lambda>(p, c). (module_specifier env p, module_url env b p)) ms) k)
         \<and> (\<forall>k. map_of integ k =
                last_write (map (\<lambda>(p, c). (module_url env b p, ''sha384-'' @ h c)) ms) k)
         \<and> length imps = card (module_specifier env ` fst ` set ms - {''__proto__''})
         \<and> length integ = card (module_url env b ` fst ` set ms - {''__proto__''})
         \<and> (distinct (map (module_specifier env \<circ> fst) ms)
              \<and> ''__proto__'' \<notin> module_specifier env ` fst ` set ms \<longrightarrow>
              length imps = length ms)
         \<and> (distinct (map (module_url env b \<circ> fst) ms)
              \<and> ''__proto__'' \<notin> module_url env b ` fst ` set ms \<longrightarrow>
              length integ = length ms)"
    if ne: "ms \<noteq> []" and hash: "createHash env ''sha384'' = Some h"
  proof -
    define imps where
      "imps = fold (\<lambda>(p, c). obj_set (module_specifier env p) (module_url env b p)) ms []"
    define integ where
      "integ = fold (\<lambda>(p, c). obj_set (module_url env b p) (''sha384-'' @ h c)) ms []"
    have gen: "generateImportMapWithIntegrity env ms b =
        Inr \<lparr>imports = Some imps, scopes = None, integrity = Some integ\<rparr>"
      using generate_ok [OF hash ne, of b] by (simp add: imps_def integ_def)
    have d1: "distinct (map fst imps)"
      unfolding imps_def by (rule distinct_fold_obj_set) simp
    have d2: "distinct (map fst integ)"
      unfolding integ_def by (rule distinct_fold_obj_set) simp
    have v1: "map_of imps k =
        last_write (map (\<lambda>(p, c). (module_specifier env p, module_url env b p)) ms) k" for k
      by (simp add: imps_def map_of_fold_obj_set last_write_def split: option.splits)
    have v2: "map_of integ k =
        last_write (map (\<lambda>(p, c). (module_url env b p, ''sha384-'' @ h c)) ms) k" for k
      by (simp add: integ_def map_of_fold_obj_set last_write_def split: option.splits)
    have img1: "(\<lambda>(p, c). module_specifier env p) ` set ms = module_specifier env ` fst ` set ms"
      by (force simp add: image_iff)
    have img2: "(\<lambda>(p, c). module_url env b p) ` set ms = module_url env b ` fst ` set ms"
      by (force simp add: image_iff)
    have len1: "length imps = card (module_specifier env ` fst ` set ms - {''__proto__''})"
      by (simp add: imps_def length_fold_obj_set img1)
    have len2: "length integ = card (module_url env b ` fst ` set ms - {''__proto__''})"
      by (simp add: integ_def length_fold_obj_set img2)
    have card_distinct: "card (f ` fst ` set ms - {''__proto__''}) = length ms"
      if "distinct (map (f \<circ> fst) ms)" "''__proto__'' \<notin> f ` fst ` set ms"
      for f :: "string \<Rightarrow> string"
      using distinct_card [OF that(1)] that(2) by (simp add: image_comp)
    from gen d1 d2 v1 v2 len1 len2 card_distinct show ?thesis
      by auto
  qed
  from empty bempty full show ?thesis by blast
qed

lemma pub_generated:
  "generateImportMapWithIntegrity pub_node pub_modules ''/'' = Inr pub_map"
  by (simp add: generateImportMapWithIntegrity_def ts_calculateIntegrity_def
      module_specifier_def module_url_def slashes_def pub_node_def pub_modules_def pub_map_def
      disk_node_def posix_join_def posix_basename_def posix_extname_def last_segment_def
      startsWith_def toy_hash_def obj_set_def array_index_def digit_def Let_def)

theorem generator_entries_witness:
  "generateImportMapWithIntegrity pub_node [] ''/'' =
     Inl (ModuleIntegrityError ''[ModuleIntegrity] No modules provided for integrity calculation'')
   \<and> createHash pub_node ''sha384'' = Some (toy_hash ''sha384'')
   \<and> generateImportMapWithIntegrity pub_node pub_modules ''/'' = Inr pub_map
   \<and> map_of (entries (imports pub_map)) ''a'' = Some ''/public/js/a.js''
   \<and> map_of (entries (integrity pub_map)) ''/public/js/a.js''
       = Some ''sha384-sha384[export const a = 1;]''
   \<and> length (entries (imports pub_map)) = length pub_modules
   \<and> length (entries (integrity pub_map)) = length pub_modules"
proof -
  have hash: "createHash pub_node ''sha384'' = Some (toy_hash ''sha384'')"
    by (simp add: pub_node_def disk_node_def)
  have ne: "pub_modules \<noteq> []"
    by (simp add: pub_modules_def)
  from generator_entries_per_module [where env = pub_node and b = "''/''" and ms = pub_modules
      and h = "toy_hash ''sha384''" and benv = "stub_browser []"] hash ne
  have "generateImportMapWithIntegrity pub_node [] ''/'' =
     Inl (ModuleIntegrityError ''[ModuleIntegrity] No modules provided for integrity calculation'')"
    by blast
  with hash pub_generated show ?thesis
    by (simp add: pub_map_def pub_modules_def entries_def)
qed

text \<open>
  C8. The digest string that the generator stores for a module is
  \<open>sha384-\<close> followed by the base64 digest of the module's content, and nothing
  else: two runs with the same digest function give the same string for the same content
  and specifier, whatever the file system, the path functions and the base URL of each
  run; with the same path functions and base URL, the two import maps are equal. The
  digest string is the only value of the run's \<open>integrity\<close>, except where the run's
  URL for the module is \<open>__proto__\<close> (as \<open>path.join('__proto__', '/.')\<close> is):
  the assignment \<open>integrity[url] = ...\<close> then stores nothing, and \<open>integrity\<close>
  is empty in every such run.
\<close>

theorem generated_digest_deterministic:
  assumes "createHash env ''sha384'' = Some h"
    and "createHash env' ''sha384'' = Some h"
  shows "ts_calculateIntegrity env c = Inr (''sha384-'' @ h c)
       \<and> ts_calculateIntegrity env' c = Inr (''sha384-'' @ h c)
       \<and> (\<exists>m m'. generateImportMapWithIntegrity env [(s, c)] b = Inr m
           \<and> generateImportMapWithIntegrity env' [(s, c)] b' = Inr m'
           \<and> map snd (entries (integrity m)) =
               (if module_url env b s = ''__proto__'' then [] else [''sha384-'' @ h c])
           \<and> map snd (entries (integrity m')) =
               (if module_url env' b' s = ''__proto__'' then [] else [''sha384-'' @ h c])
           \<and> (path_join env = path_join env' \<and> path_basename env = path_basename env'
                \<and> path_extname env = path_extname env' \<and> b = b' \<longrightarrow> m = m'))"
  using assms
  by (simp add: generateImportMapWithIntegrity_def ts_calculateIntegrity_def entries_def
      module_specifier_def module_url_def obj_set_Nil)

theorem generated_digest_witness:
  "createHash pub_node ''sha384'' = Some (toy_hash ''sha384'')
   \<and> createHash (disk_node [] []) ''sha384'' = Some (toy_hash ''sha384'')
   \<and> generateImportMapWithIntegrity pub_node [(''public/js/a.js'', ''export const a = 1;'')] ''/''
     = Inr pub_map
   \<and> generateImportMapWithIntegrity (disk_node [] []) [(''public/js/a.js'', ''export const a = 1;'')]
        ''/modules''
     = Inr \<lparr>imports = Some [(''a'', ''/modules/public/js/a.js'')],
            scopes = None,
            integrity = Some [(''/modules/public/js/a.js'', ''sha384-sha384[export const a = 1;]'')]\<rparr>
   \<and> map snd (entries (integrity pub_map)) = [''sha384-sha384[export const a = 1;]'']"
  using generated_digest_deterministic [of pub_node "toy_hash ''sha384''" "disk_node [] []"
      "''export const a = 1;''" "''public/js/a.js''" "''/''" "''/modules''"]
  by (simp add: generateImportMapWithIntegrity_def ts_calculateIntegrity_def
      module_specifier_def module_url_def slashes_def pub_node_def pub_modules_def pub_map_def
      disk_node_def posix_join_def posix_basename_def posix_extname_def last_segment_def
      startsWith_def toy_hash_def entries_def obj_set_def array_index_def digit_def Let_def)

section \<open>Generating and then validating\<close>






end
